theory Spec2Isabelle
  imports Main
begin

section \<open>Python values of a driver record\<close>

text \<open>
  \<^verbatim>\<open>fetch_drivers\<close> returns the decoded JSON array of the OpenF1 drivers endpoint. Each
  driver is a flat JSON object: a Python \<^verbatim>\<open>dict\<close> from field names to \<^verbatim>\<open>None\<close>, booleans,
  integers or strings. Python integers are unbounded, strings are character lists.
  Floating-point numbers and nested arrays or objects do not occur in a driver object and
  are not part of the model.
\<close>

datatype pyval = PyNone | PyBool bool | PyInt int | PyStr string

type_synonym pydict = "string \<rightharpoonup> pyval"

text \<open>The exceptions that can leave the code under study.\<close>

datatype exn = AttributeError string | ValueError string | IndexError string | OSError string

text \<open>\<^verbatim>\<open>d.get(key, default)\<close>: the default only replaces a key that is not in the dict.\<close>

definition dict_get :: "pydict \<Rightarrow> string \<Rightarrow> pyval \<Rightarrow> pyval" where
  "dict_get d key dflt = (case d key of None \<Rightarrow> dflt | Some v \<Rightarrow> v)"

text \<open>Truth value testing, as \<^verbatim>\<open>not x\<close> and \<^verbatim>\<open>if x\<close> use it.\<close>

fun truthy :: "pyval \<Rightarrow> bool" where
  "truthy PyNone = False"
| "truthy (PyBool b) = b"
| "truthy (PyInt i) = (i \<noteq> 0)"
| "truthy (PyStr s) = (s \<noteq> [])"

text \<open>Decimal digits of a natural number, most significant first.\<close>

function nat_str :: "nat \<Rightarrow> string" where
  "nat_str n =
     (if n < 10 then [''0123456789'' ! n]
      else nat_str (n div 10) @ [''0123456789'' ! (n mod 10)])"
  by pat_completeness auto
termination
  by (relation "measure id") auto

declare nat_str.simps [simp del]

definition int_str :: "int \<Rightarrow> string" where
  "int_str i = (if i < 0 then CHR ''-'' # nat_str (nat (- i)) else nat_str (nat i))"

text \<open>\<^verbatim>\<open>str(x)\<close>, which is what a replacement field \<^verbatim>\<open>{x}\<close> of an f-string inserts.\<close>

fun py_str :: "pyval \<Rightarrow> string" where
  "py_str PyNone = ''None''"
| "py_str (PyBool b) = (if b then ''True'' else ''False'')"
| "py_str (PyInt i) = int_str i"
| "py_str (PyStr s) = s"

text \<open>
  \<^verbatim>\<open>s.lower()\<close> on the letters A to Z; every other character is left as it is. No
  character outside ASCII lowers to one of the letters of \<^verbatim>\<open>none\<close>, so the comparison
  with \<^verbatim>\<open>"none"\<close> is decided by these letters.
\<close>

definition lower_char :: "char \<Rightarrow> char" where
  "lower_char c =
     (case map_of (zip ''ABCDEFGHIJKLMNOPQRSTUVWXYZ'' ''abcdefghijklmnopqrstuvwxyz'') c of
        None \<Rightarrow> c
      | Some l \<Rightarrow> l)"

definition str_lower :: "string \<Rightarrow> string" where
  "str_lower s = map lower_char s"

text \<open>
  \<^verbatim>\<open>x.lower()\<close> on a Python value: only \<^verbatim>\<open>str\<close> has the method, every other type raises
  \<^verbatim>\<open>AttributeError\<close>.
\<close>

fun py_lower :: "pyval \<Rightarrow> exn + string" where
  "py_lower (PyStr s) = Inr (str_lower s)"
| "py_lower PyNone = Inl (AttributeError ''NoneType'')"
| "py_lower (PyBool b) = Inl (AttributeError ''bool'')"
| "py_lower (PyInt i) = Inl (AttributeError ''int'')"

section \<open>Row colour (main.py lines 83 to 86, noheadshot.py lines 51 to 54)\<close>

text \<open>
  \<^verbatim>\<open>colors.HexColor\<close> belongs to the reportlab library, not to this repository. It is
  the parameter \<open>HexColor\<close> of the model: a function from the string it is given to the
  colour it builds, or to the exception it raises.

  \<^verbatim>\<open>
  hex_color = driver.get("team_colour")
  if not hex_color or hex_color.lower() == "none":
      hex_color = "CCCCCC"  # Default gray
  team_color = colors.HexColor(f"#{hex_color}")
  \<close>
  The \<^verbatim>\<open>or\<close> is short-circuit: \<^verbatim>\<open>.lower()\<close> is only called on a truthy value.
\<close>

definition main_team_color :: "(string \<Rightarrow> exn + 'c) \<Rightarrow> pydict \<Rightarrow> exn + 'c" where
  "main_team_color HexColor driver =
     (let hex_color = dict_get driver ''team_colour'' PyNone in
      if \<not> truthy hex_color then HexColor (''#'' @ py_str (PyStr ''CCCCCC''))
      else case py_lower hex_color of
             Inl e \<Rightarrow> Inl e
           | Inr l \<Rightarrow>
               if l = ''none'' then HexColor (''#'' @ py_str (PyStr ''CCCCCC''))
               else HexColor (''#'' @ py_str hex_color))"

definition noheadshot_team_color :: "(string \<Rightarrow> exn + 'c) \<Rightarrow> pydict \<Rightarrow> exn + 'c" where
  "noheadshot_team_color HexColor driver =
     (let hex_color = dict_get driver ''team_colour'' PyNone in
      if \<not> truthy hex_color then HexColor (''#'' @ py_str (PyStr ''CCCCCC''))
      else case py_lower hex_color of
             Inl e \<Rightarrow> Inl e
           | Inr l \<Rightarrow>
               if l = ''none'' then HexColor (''#'' @ py_str (PyStr ''CCCCCC''))
               else HexColor (''#'' @ py_str hex_color))"

section \<open>Table rows\<close>

text \<open>
  A table cell holds the Python object the code puts there: a value of the record (or the
  string \<^verbatim>\<open>"N/A"\<close>), or a reportlab image built from a file path with a width and a
  height.
\<close>

datatype cell = Val pyval | RLImageCell string nat nat

text \<open>
  The row literal of noheadshot.py (lines 56 to 63):
  \<^verbatim>\<open>
  [driver.get("driver_number", "N/A"),
   f"{driver.get('first_name', 'N/A')} {driver.get('last_name', 'N/A')}",
   driver.get("name_acronym", "N/A"), driver.get("team_name", "N/A"),
   driver.get("dob", "N/A"), driver.get("country_code", "N/A")]
  \<close>
\<close>

definition noheadshot_row :: "pydict \<Rightarrow> cell list" where
  "noheadshot_row driver =
     [Val (dict_get driver ''driver_number'' (PyStr ''N/A'')),
      Val (PyStr (py_str (dict_get driver ''first_name'' (PyStr ''N/A'')) @ '' '' @
                  py_str (dict_get driver ''last_name'' (PyStr ''N/A'')))),
      Val (dict_get driver ''name_acronym'' (PyStr ''N/A'')),
      Val (dict_get driver ''team_name'' (PyStr ''N/A'')),
      Val (dict_get driver ''dob'' (PyStr ''N/A'')),
      Val (dict_get driver ''country_code'' (PyStr ''N/A''))]"

text \<open>The row literal of main.py (lines 88 to 96): the same cells after the image cell.\<close>

definition main_row :: "cell \<Rightarrow> pydict \<Rightarrow> cell list" where
  "main_row image_cell driver =
     [image_cell,
      Val (dict_get driver ''driver_number'' (PyStr ''N/A'')),
      Val (PyStr (py_str (dict_get driver ''first_name'' (PyStr ''N/A'')) @ '' '' @
                  py_str (dict_get driver ''last_name'' (PyStr ''N/A'')))),
      Val (dict_get driver ''name_acronym'' (PyStr ''N/A'')),
      Val (dict_get driver ''team_name'' (PyStr ''N/A'')),
      Val (dict_get driver ''dob'' (PyStr ''N/A'')),
      Val (dict_get driver ''country_code'' (PyStr ''N/A''))]"

section \<open>The file system, the network and the console\<close>

text \<open>
  The state the code reads and changes, for one process running alone on a POSIX file
  system:
  \<^item> \<open>headshots_dir\<close>: the relative path \<^verbatim>\<open>headshots\<close> is an existing directory;
  \<^item> \<open>files\<close>: the paths at which \<^verbatim>\<open>os.path.exists\<close> finds an entry, once the directories
    leading to them exist;
  \<^item> \<open>fs_calls\<close>, \<open>http_calls\<close>: every file-system call and every HTTP request made so
    far, in order;
  \<^item> \<open>stdout\<close>: the lines printed so far.
\<close>

datatype fs_call = Makedirs string | PathExists string | ImageSave string

record world =
  headshots_dir :: bool
  files :: "string set"
  fs_calls :: "fs_call list"
  http_calls :: "pyval list"
  stdout :: "string list"

text \<open>
  What the collaborators answer. An HTTP response has a status code and a body; reading
  the body of a streamed response can itself raise. A failed \<^verbatim>\<open>img.save\<close> may or may not
  leave a file behind.
\<close>

record http_response =
  status_code :: int
  content :: "string + string"

datatype save_outcome = Saved | SaveRaises string bool

text \<open>
  \<^item> \<open>makedirs_raises\<close>: the error of \<^verbatim>\<open>os.makedirs("headshots", exist_ok=True)\<close> when the
    directory is not there and cannot be created (a file of that name, no permission);
  \<^item> \<open>requests_get n url\<close>: the outcome of the request number \<open>n\<close> (counted from 0) when it
    asks for \<open>url\<close>: an exception (its message) or a response;
  \<^item> \<open>image_open\<close>, \<open>image_resize\<close>: decoding with PIL, an exception or an image;
  \<^item> \<open>image_save n img path\<close>: the outcome of saving after request number \<open>n\<close>.
\<close>

record 'i env =
  makedirs_raises :: "string option"
  requests_get :: "nat \<Rightarrow> pyval \<Rightarrow> string + http_response"
  image_open :: "string \<Rightarrow> string + 'i"
  image_resize :: "'i \<Rightarrow> string + 'i"
  image_save :: "nat \<Rightarrow> 'i \<Rightarrow> string \<Rightarrow> save_outcome"

text \<open>
  \<^verbatim>\<open>os.path.exists(path)\<close>. A path below \<^verbatim>\<open>headshots/\<close> resolves only when that directory
  exists.
\<close>

definition os_path_exists :: "string \<Rightarrow> world \<Rightarrow> bool \<times> world" where
  "os_path_exists path w =
     ((if take 10 path = ''headshots/'' then headshots_dir w \<and> path \<in> files w
       else path \<in> files w),
      w\<lparr>fs_calls := fs_calls w @ [PathExists path]\<rparr>)"

text \<open>
  \<^verbatim>\<open>os.makedirs("headshots", exist_ok=True)\<close>: nothing to do when the directory exists,
  otherwise it is created or the call raises.
\<close>

definition os_makedirs :: "'i env \<Rightarrow> world \<Rightarrow> (exn + unit) \<times> world" where
  "os_makedirs env w =
     (let w1 = w\<lparr>fs_calls := fs_calls w @ [Makedirs ''headshots'']\<rparr> in
      if headshots_dir w then (Inr (), w1)
      else case makedirs_raises env of
             Some e \<Rightarrow> (Inl (OSError e), w1)
           | None \<Rightarrow> (Inr (), w1\<lparr>headshots_dir := True\<rparr>))"

text \<open>
  The handler of \<^verbatim>\<open>download_headshot\<close>:
  \<^verbatim>\<open>print(f"<warning sign> Failed to download image for {driver_id}: {e}")\<close>.
  The warning sign is U+26A0 U+FE0F, six bytes in UTF-8.
\<close>

definition warning_sign :: string where
  "warning_sign = [CHR 0xE2, CHR 0x9A, CHR 0xA0, CHR 0xEF, CHR 0xB8, CHR 0x8F]"

definition print_warning :: "pyval \<Rightarrow> string \<Rightarrow> world \<Rightarrow> world" where
  "print_warning driver_id e w =
     w\<lparr>stdout := stdout w @
        [warning_sign @ '' Failed to download image for '' @ py_str driver_id @ '': '' @ e]\<rparr>"

section \<open>download_headshot (main.py lines 28 to 49)\<close>

text \<open>Line 33: \<^verbatim>\<open>file_path = f"headshots/{driver_id}.png"\<close>.\<close>

definition file_path :: "pyval \<Rightarrow> string" where
  "file_path driver_id = ''headshots/'' @ py_str driver_id @ ''.png''"

text \<open>
  The body of the \<^verbatim>\<open>try\<close> block (lines 40 to 45). Its outcome is an exception raised
  inside the block (\<open>Inl\<close>, with the text of the exception), the path of
  \<^verbatim>\<open>return file_path\<close>, or \<open>None\<close> when the block ends without returning, which happens
  when the status is not 200. Every request is recorded before its outcome is known.
\<close>

definition try_download ::
  "'i env \<Rightarrow> pyval \<Rightarrow> pyval \<Rightarrow> world \<Rightarrow> (string + string option) \<times> world" where
  "try_download env image_url driver_id w =
     (let n = length (http_calls w);
          w1 = w\<lparr>http_calls := http_calls w @ [image_url]\<rparr> in
      case requests_get env n image_url of
        Inl e \<Rightarrow> (Inl e, w1)
      | Inr response \<Rightarrow>
          if status_code response = 200 then
            (case content response of
               Inl e \<Rightarrow> (Inl e, w1)
             | Inr bytes \<Rightarrow>
                 (case image_open env bytes of
                    Inl e \<Rightarrow> (Inl e, w1)
                  | Inr img \<Rightarrow>
                      (case image_resize env img of
                         Inl e \<Rightarrow> (Inl e, w1)
                       | Inr img50 \<Rightarrow>
                           (let w2 = w1\<lparr>fs_calls := fs_calls w1 @
                                      [ImageSave (file_path driver_id)]\<rparr> in
                            case image_save env n img50 (file_path driver_id) of
                              Saved \<Rightarrow>
                                (Inr (Some (file_path driver_id)),
                                 w2\<lparr>files := insert (file_path driver_id) (files w2)\<rparr>)
                            | SaveRaises e left \<Rightarrow>
                                (Inl e,
                                 if left
                                 then w2\<lparr>files := insert (file_path driver_id) (files w2)\<rparr>
                                 else w2)))))
          else (Inr None, w1))"

text \<open>
  The function. Its result is the returned file path, \<open>None\<close> for Python's \<^verbatim>\<open>None\<close>, or the
  exception that leaves it. \<^verbatim>\<open>os.makedirs\<close> stands before the \<^verbatim>\<open>try\<close>, so its exception
  is not caught. An exception of the \<^verbatim>\<open>try\<close> block is caught, printed and followed by the
  final \<^verbatim>\<open>return None\<close>; a block that ends without returning reaches the same
  \<^verbatim>\<open>return None\<close> without entering the handler.
\<close>

definition download_headshot ::
  "'i env \<Rightarrow> pyval \<Rightarrow> pyval \<Rightarrow> world \<Rightarrow> (exn + string option) \<times> world" where
  "download_headshot env image_url driver_id w =
     (if \<not> truthy image_url then (Inr None, w)
      else
        case os_makedirs env w of
          (Inl e, w1) \<Rightarrow> (Inl e, w1)
        | (Inr u, w1) \<Rightarrow>
            (case os_path_exists (file_path driver_id) w1 of
               (True, w2) \<Rightarrow> (Inr (Some (file_path driver_id)), w2)
             | (False, w2) \<Rightarrow>
                 (case try_download env image_url driver_id w2 of
                    (Inl e, w3) \<Rightarrow> (Inr None, print_warning driver_id e w3)
                  | (Inr (Some path), w3) \<Rightarrow> (Inr (Some path), w3)
                  | (Inr None, w3) \<Rightarrow> (Inr None, w3))))"

section \<open>The document handed to the layout engine\<close>

text \<open>
  A table style command names a cell range and a value; a colour is one of reportlab's
  named colours or a colour built by \<open>HexColor\<close>. The flowables are the elements of the
  list given to \<^verbatim>\<open>doc.build\<close>. Laying out and writing the PDF is the work of reportlab and
  is not modelled: \<open>create_pdf\<close> ends with the document it hands over.
\<close>

datatype 'c paint = Named string | Hex 'c

datatype 'c style_cmd =
    BACKGROUND "int \<times> int" "int \<times> int" "'c paint"
  | TEXTCOLOR "int \<times> int" "int \<times> int" "'c paint"
  | ALIGN "int \<times> int" "int \<times> int" string
  | FONTNAME "int \<times> int" "int \<times> int" string
  | BOTTOMPADDING "int \<times> int" "int \<times> int" int
  | GRID "int \<times> int" "int \<times> int" int "'c paint"

datatype 'c flowable =
    RLImage string nat nat
  | Paragraph string string
  | Spacer nat nat
  | Table "cell list list" "nat list" "'c style_cmd list"

record 'c document =
  filename :: string
  elements :: "'c flowable list"

definition title_markup :: string where
  "title_markup = ''<b><font size='18' color='darkred'>Formula 1 Drivers Report</font></b>''"

section \<open>create_pdf of noheadshot.py (lines 26 to 89)\<close>

definition noheadshot_header :: "cell list" where
  "noheadshot_header =
     map (\<lambda>s. Val (PyStr s))
       [''Driver #'', ''Full Name'', ''Abbreviation'', ''Team'', ''DOB'', ''Nationality'']"

text \<open>
  The loop \<^verbatim>\<open>for driver in drivers_data\<close> (lines 49 to 64), on the pair of lists it appends
  to. An exception of the colour block ends the loop.
\<close>

fun noheadshot_populate ::
  "(string \<Rightarrow> exn + 'c) \<Rightarrow> pydict list \<Rightarrow> cell list list \<times> 'c list \<Rightarrow>
   exn + cell list list \<times> 'c list" where
  "noheadshot_populate HexColor [] (table_data, row_colors) = Inr (table_data, row_colors)"
| "noheadshot_populate HexColor (driver # rest) (table_data, row_colors) =
     (case noheadshot_team_color HexColor driver of
        Inl e \<Rightarrow> Inl e
      | Inr team_color \<Rightarrow>
          noheadshot_populate HexColor rest
            (table_data @ [noheadshot_row driver], row_colors @ [team_color]))"

definition noheadshot_style :: "'c style_cmd list" where
  "noheadshot_style =
     [BACKGROUND (0, 0) (- 1, 0) (Named ''darkred''),
      TEXTCOLOR (0, 0) (- 1, 0) (Named ''white''),
      ALIGN (0, 0) (- 1, - 1) ''CENTER'',
      FONTNAME (0, 0) (- 1, 0) ''Helvetica-Bold'',
      BOTTOMPADDING (0, 0) (- 1, 0) 10,
      GRID (0, 0) (- 1, - 1) 1 (Named ''black'')]"

text \<open>
  The loop \<^verbatim>\<open>for i in range(1, len(table_data))\<close> (lines 81 and 82), on the values of \<open>i\<close>
  still to come. \<^verbatim>\<open>row_colors[i-1]\<close> raises \<^verbatim>\<open>IndexError\<close> beyond the end of the list;
  \<open>i\<close> is at least 1, so the index is never negative.
\<close>

fun noheadshot_row_styles ::
  "nat list \<Rightarrow> 'c list \<Rightarrow> 'c style_cmd list \<Rightarrow> exn + 'c style_cmd list" where
  "noheadshot_row_styles [] row_colors style = Inr style"
| "noheadshot_row_styles (i # later) row_colors style =
     (if i - 1 < length row_colors then
        noheadshot_row_styles later row_colors
          (style @ [BACKGROUND (0, int i) (- 1, int i) (Hex (row_colors ! (i - 1)))])
      else Inl (IndexError ''list index out of range''))"

definition noheadshot_create_pdf ::
  "(string \<Rightarrow> exn + 'c) \<Rightarrow> pydict list \<Rightarrow> string \<Rightarrow> world \<Rightarrow> (exn + 'c document) \<times> world" where
  "noheadshot_create_pdf HexColor drivers_data fname w =
     (case os_path_exists ''f1_logo.png'' w of
        (logo_found, w1) \<Rightarrow>
          (let elements0 =
                 (if logo_found then [RLImage ''f1_logo.png'' 100 50] else []) @
                 [Paragraph title_markup ''Title'', Spacer 1 12] in
           case noheadshot_populate HexColor drivers_data ([noheadshot_header], []) of
             Inl e \<Rightarrow> (Inl e, w1)
           | Inr (table_data, row_colors) \<Rightarrow>
               (case noheadshot_row_styles [1..<length table_data] row_colors noheadshot_style of
                  Inl e \<Rightarrow> (Inl e, w1)
                | Inr style \<Rightarrow>
                    (Inr \<lparr>filename = fname,
                          elements = elements0 @
                            [Table table_data [60, 150, 80, 140, 100, 100] style]\<rparr>,
                     w1))))"

section \<open>create_pdf of main.py (lines 52 to 122)\<close>

definition main_header :: "cell list" where
  "main_header =
     map (\<lambda>s. Val (PyStr s))
       [''Headshot'', ''Driver #'', ''Full Name'', ''Abbreviation'', ''Team'', ''DOB'',
        ''Nationality'']"

text \<open>
  Line 75, the id under which the headshot is cached:
  \<^verbatim>\<open>driver.get("driver_id", f"unknown_{driver.get('driver_number', 'N/A')}")\<close>.
\<close>

definition main_driver_id :: "pydict \<Rightarrow> pyval" where
  "main_driver_id driver =
     dict_get driver ''driver_id''
       (PyStr (''unknown_'' @ py_str (dict_get driver ''driver_number'' (PyStr ''N/A''))))"

text \<open>
  Lines 76 to 80: the headshot is asked for only when the record has a truthy URL, and
  the cell is an image when a path came back, the string \<^verbatim>\<open>"N/A"\<close> otherwise.
\<close>

definition main_headshot ::
  "'i env \<Rightarrow> pydict \<Rightarrow> world \<Rightarrow> (exn + string option) \<times> world" where
  "main_headshot env driver w =
     (let driver_id = main_driver_id driver;
          headshot_url = dict_get driver ''headshot_url'' PyNone in
      if truthy headshot_url then download_headshot env headshot_url driver_id w
      else (Inr None, w))"

definition main_image :: "string option \<Rightarrow> cell" where
  "main_image headshot =
     (case headshot of
        Some path \<Rightarrow> if path \<noteq> [] then RLImageCell path 50 50 else Val (PyStr ''N/A'')
      | None \<Rightarrow> Val (PyStr ''N/A''))"

text \<open>
  The loop \<^verbatim>\<open>for driver in drivers_data\<close> (lines 74 to 97). An exception of
  \<^verbatim>\<open>download_headshot\<close> or of the colour block ends the loop.
\<close>

fun main_populate ::
  "'i env \<Rightarrow> (string \<Rightarrow> exn + 'c) \<Rightarrow> pydict list \<Rightarrow> cell list list \<times> 'c list \<Rightarrow> world \<Rightarrow>
   (exn + cell list list \<times> 'c list) \<times> world" where
  "main_populate env HexColor [] (table_data, row_colors) w = (Inr (table_data, row_colors), w)"
| "main_populate env HexColor (driver # rest) (table_data, row_colors) w =
     (case main_headshot env driver w of
        (Inl e, w1) \<Rightarrow> (Inl e, w1)
      | (Inr headshot, w1) \<Rightarrow>
          (case main_team_color HexColor driver of
             Inl e \<Rightarrow> (Inl e, w1)
           | Inr team_color \<Rightarrow>
               main_populate env HexColor rest
                 (table_data @ [main_row (main_image headshot) driver],
                  row_colors @ [team_color]) w1))"

definition main_style :: "'c style_cmd list" where
  "main_style =
     [BACKGROUND (0, 0) (- 1, 0) (Named ''darkred''),
      TEXTCOLOR (0, 0) (- 1, 0) (Named ''white''),
      ALIGN (0, 0) (- 1, - 1) ''CENTER'',
      FONTNAME (0, 0) (- 1, 0) ''Helvetica-Bold'',
      BOTTOMPADDING (0, 0) (- 1, 0) 10,
      GRID (0, 0) (- 1, - 1) 1 (Named ''black'')]"

text \<open>The loop \<^verbatim>\<open>for i in range(1, len(table_data))\<close> (lines 114 and 115).\<close>

fun main_row_styles ::
  "nat list \<Rightarrow> 'c list \<Rightarrow> 'c style_cmd list \<Rightarrow> exn + 'c style_cmd list" where
  "main_row_styles [] row_colors style = Inr style"
| "main_row_styles (i # later) row_colors style =
     (if i - 1 < length row_colors then
        main_row_styles later row_colors
          (style @ [BACKGROUND (0, int i) (- 1, int i) (Hex (row_colors ! (i - 1)))])
      else Inl (IndexError ''list index out of range''))"

definition main_create_pdf ::
  "'i env \<Rightarrow> (string \<Rightarrow> exn + 'c) \<Rightarrow> pydict list \<Rightarrow> string \<Rightarrow> world \<Rightarrow>
   (exn + 'c document) \<times> world" where
  "main_create_pdf env HexColor drivers_data fname w =
     (case os_path_exists ''f1_logo.png'' w of
        (logo_found, w1) \<Rightarrow>
          (let elements0 =
                 (if logo_found then [RLImage ''f1_logo.png'' 100 50] else []) @
                 [Paragraph title_markup ''Title'', Spacer 1 12] in
           case main_populate env HexColor drivers_data ([main_header], []) w1 of
             (Inl e, w2) \<Rightarrow> (Inl e, w2)
           | (Inr (table_data, row_colors), w2) \<Rightarrow>
               (case main_row_styles [1..<length table_data] row_colors main_style of
                  Inl e \<Rightarrow> (Inl e, w2)
                | Inr style \<Rightarrow>
                    (Inr \<lparr>filename = fname,
                          elements = elements0 @
                            [Table table_data [60, 60, 150, 80, 140, 100, 100] style]\<rparr>,
                     w2))))"

section \<open>Concrete collaborators for the examples\<close>

text \<open>
  A working directory without a \<^verbatim>\<open>headshots\<close> folder and without files, in which nothing
  has happened yet.
\<close>

definition fresh_world :: world where
  "fresh_world =
     \<lparr>headshots_dir = False, files = {}, fs_calls = [], http_calls = [], stdout = []\<rparr>"

text \<open>
  Collaborators that always give the same answer to a request and the same result of
  decoding; the directory can be created, resizing and saving succeed.
\<close>

definition sample_env :: "(string + http_response) \<Rightarrow> (string + unit) \<Rightarrow> unit env" where
  "sample_env answer decoded =
     \<lparr>makedirs_raises = None,
      requests_get = (\<lambda>n url. answer),
      image_open = (\<lambda>bytes. decoded),
      image_resize = Inr,
      image_save = (\<lambda>n img path. Saved)\<rparr>"

text \<open>
  A stand-in for \<^verbatim>\<open>colors.HexColor\<close> in the examples: the colour is the string itself, and
  the one malformed string of the examples is refused the way \<^verbatim>\<open>int("ZZZZZZ", 16)\<close> is.
\<close>

definition sample_HexColor :: "string \<Rightarrow> exn + string" where
  "sample_HexColor s =
     (if s = ''#ZZZZZZ'' then Inl (ValueError ''invalid literal for int() with base 16'')
      else Inr s)"

section \<open>Lookups and rows\<close>



text \<open>
  Claim C1. In both variants, a display field (driver number, acronym, team name, date of
  birth, country code) whose key is absent from the record is the string \<^verbatim>\<open>"N/A"\<close> in
  its cell, which is not the empty string. The full-name cell is the first-name part, a
  space and the last-name part, where each part is \<^verbatim>\<open>"N/A"\<close> when its key is absent and
  the text of the field otherwise; a record with only a last name gives
  \<^verbatim>\<open>"N/A LastName"\<close>. Columns are counted from 0; the row of main.py has the image cell in
  front.
\<close>

theorem missing_field_is_NA:
  "(\<forall>(key, col) \<in> set [(''driver_number'', 0), (''name_acronym'', 2), (''team_name'', 3),
                          (''dob'', 4), (''country_code'', 5)].
      driver key = None \<longrightarrow>
        noheadshot_row driver ! col = Val (PyStr ''N/A'') \<and>
        main_row image_cell driver ! Suc col = Val (PyStr ''N/A'') \<and>
        Val (PyStr ''N/A'') \<noteq> Val (PyStr '''')) \<and>
   noheadshot_row driver ! 1 =
     Val (PyStr ((case driver ''first_name'' of None \<Rightarrow> ''N/A'' | Some v \<Rightarrow> py_str v) @ '' '' @
                 (case driver ''last_name'' of None \<Rightarrow> ''N/A'' | Some v \<Rightarrow> py_str v))) \<and>
   main_row image_cell driver ! 2 = noheadshot_row driver ! 1 \<and>
   (\<forall>last_name. driver ''first_name'' = None \<and> driver ''last_name'' = Some (PyStr last_name) \<longrightarrow>
      noheadshot_row driver ! 1 = Val (PyStr (''N/A '' @ last_name)))"
  by (auto simp: noheadshot_row_def main_row_def dict_get_def split: option.splits)

theorem missing_field_is_NA_witness:
  "noheadshot_row [''last_name'' \<mapsto> PyStr ''Verstappen''] =
     [Val (PyStr ''N/A''), Val (PyStr ''N/A Verstappen''), Val (PyStr ''N/A''),
      Val (PyStr ''N/A''), Val (PyStr ''N/A''), Val (PyStr ''N/A'')] \<and>
   main_row (Val (PyStr ''N/A'')) [''last_name'' \<mapsto> PyStr ''Verstappen''] ! 2 =
     Val (PyStr ''N/A Verstappen'') \<and>
   main_row (Val (PyStr ''N/A'')) [''last_name'' \<mapsto> PyStr ''Verstappen''] ! 5 =
     Val (PyStr ''N/A'')"
  using missing_field_is_NA [of "[''last_name'' \<mapsto> PyStr ''Verstappen'']" "Val (PyStr ''N/A'')"]
  by (simp add: noheadshot_row_def dict_get_def)

section \<open>Row colour\<close>

lemma main_team_color_eq_noheadshot:
  "main_team_color HexColor driver = noheadshot_team_color HexColor driver"
  by (simp add: main_team_color_def noheadshot_team_color_def)

lemma team_color_given:
  assumes "driver ''team_colour'' = Some (PyStr s)" "s \<noteq> ''''" "str_lower s \<noteq> ''none''"
  shows "noheadshot_team_color HexColor driver = HexColor (''#'' @ s)"
  using assms by (simp add: noheadshot_team_color_def dict_get_def)

text \<open>
  Claim C2. For a team-colour field that is absent, null or a string (the type the spec
  gives it): when the field is absent, null, the empty string or a string that lowers to
  \<^verbatim>\<open>none\<close>, the row colour is the one built from \<^verbatim>\<open>#CCCCCC\<close>; for every other string
  \<open>s\<close> it is the one built from \<^verbatim>\<open>#\<close> followed by \<open>s\<close>, so \<^verbatim>\<open>3671C6\<close> gives the colour of
  \<^verbatim>\<open>#3671C6\<close>. Both variants agree.
\<close>

theorem team_color_default_or_given:
  "(driver ''team_colour'' = None \<or> driver ''team_colour'' = Some PyNone \<or>
    driver ''team_colour'' = Some (PyStr '''') \<or>
    (\<exists>s. driver ''team_colour'' = Some (PyStr s) \<and> str_lower s = ''none'') \<longrightarrow>
      main_team_color HexColor driver = HexColor ''#CCCCCC'' \<and>
      noheadshot_team_color HexColor driver = HexColor ''#CCCCCC'') \<and>
   (\<forall>s. driver ''team_colour'' = Some (PyStr s) \<and> s \<noteq> '''' \<and> str_lower s \<noteq> ''none'' \<longrightarrow>
      main_team_color HexColor driver = HexColor (''#'' @ s) \<and>
      noheadshot_team_color HexColor driver = HexColor (''#'' @ s)) \<and>
   (driver ''team_colour'' = Some (PyStr ''3671C6'') \<longrightarrow>
      main_team_color HexColor driver = HexColor ''#3671C6'' \<and>
      noheadshot_team_color HexColor driver = HexColor ''#3671C6'')"
  by (auto simp: main_team_color_def noheadshot_team_color_def dict_get_def str_lower_def
      lower_char_def Let_def)

theorem team_color_default_or_given_witness:
  "main_team_color Inr [''team_colour'' \<mapsto> PyStr ''3671C6''] = Inr ''#3671C6'' \<and>
   noheadshot_team_color Inr [''team_colour'' \<mapsto> PyStr ''3671C6''] = Inr ''#3671C6'' \<and>
   main_team_color Inr [''team_colour'' \<mapsto> PyStr ''NoNe''] = Inr ''#CCCCCC'' \<and>
   noheadshot_team_color Inr [''team_colour'' \<mapsto> PyStr ''NoNe''] = Inr ''#CCCCCC'' \<and>
   main_team_color Inr Map.empty = Inr ''#CCCCCC'' \<and>
   noheadshot_team_color Inr Map.empty = Inr ''#CCCCCC''"
proof -
  have lower: "str_lower ''NoNe'' = ''none''" "str_lower ''3671C6'' \<noteq> ''none''"
    by (simp_all add: str_lower_def lower_char_def)
  show ?thesis
    using team_color_default_or_given [of "[''team_colour'' \<mapsto> PyStr ''3671C6'']" Inr]
      team_color_default_or_given [of "[''team_colour'' \<mapsto> PyStr ''NoNe'']" Inr]
      team_color_default_or_given [of Map.empty Inr] lower
    by simp
qed

section \<open>download_headshot\<close>

lemma os_path_exists_headshot:
  "os_path_exists (file_path driver_id) w =
     (headshots_dir w \<and> file_path driver_id \<in> files w,
      w\<lparr>fs_calls := fs_calls w @ [PathExists (file_path driver_id)]\<rparr>)"
  unfolding os_path_exists_def file_path_def by simp

lemma os_makedirs_ok:
  "os_makedirs env w = (Inr u, w1) \<Longrightarrow>
   headshots_dir w1 \<and> files w1 = files w \<and> http_calls w1 = http_calls w \<and> stdout w1 = stdout w"
  by (auto simp: os_makedirs_def Let_def split: if_splits option.splits)

lemma os_makedirs_possible:
  "headshots_dir w \<or> makedirs_raises env = None \<Longrightarrow>
   os_makedirs env w =
     (Inr (), w\<lparr>fs_calls := fs_calls w @ [Makedirs ''headshots''], headshots_dir := True\<rparr>)"
  by (auto simp: os_makedirs_def Let_def)

lemma try_download_saved:
  "try_download env image_url driver_id w = (Inr (Some path), w1) \<Longrightarrow>
   path = file_path driver_id \<and> path \<in> files w1 \<and> headshots_dir w1 = headshots_dir w"
  by (auto simp: try_download_def Let_def split: if_splits sum.splits save_outcome.splits)

lemma download_headshot_cached:
  assumes "truthy image_url" "headshots_dir w" "file_path driver_id \<in> files w"
  shows "download_headshot env image_url driver_id w =
     (Inr (Some (file_path driver_id)),
      w\<lparr>fs_calls := fs_calls w @ [Makedirs ''headshots'', PathExists (file_path driver_id)]\<rparr>)"
  using assms
  by (simp add: download_headshot_def os_makedirs_def os_path_exists_headshot Let_def)

lemma download_headshot_path:
  assumes "download_headshot env image_url driver_id w = (Inr (Some path), w1)"
  shows "truthy image_url \<and> path = file_path driver_id \<and> headshots_dir w1 \<and> path \<in> files w1"
proof -
  have t: "truthy image_url"
    using assms by (auto simp: download_headshot_def split: if_splits)
  obtain r wm where m: "os_makedirs env w = (r, wm)" by fastforce
  with assms t obtain u where u: "r = Inr u"
    by (cases r) (auto simp: download_headshot_def)
  from os_makedirs_ok m u have dir: "headshots_dir wm" by blast
  let ?w2 = "wm\<lparr>fs_calls := fs_calls wm @ [PathExists (file_path driver_id)]\<rparr>"
  show ?thesis
  proof (cases "file_path driver_id \<in> files wm")
    case True
    with assms t m u dir show ?thesis
      by (auto simp: download_headshot_def os_path_exists_headshot)
  next
    case False
    obtain r3 w3 where d: "try_download env image_url driver_id ?w2 = (r3, w3)" by fastforce
    with assms t m u dir False have "r3 = Inr (Some path) \<and> w3 = w1"
      by (auto simp: download_headshot_def os_path_exists_headshot
          split: sum.splits option.splits)
    with d try_download_saved [of env image_url driver_id ?w2 path w1] dir t
    show ?thesis by auto
  qed
qed

text \<open>
  Claim C3. For a call that has a URL: when the cache file of the id exists, the call
  returns its path whatever the URL and the collaborators are, and makes no request,
  writes no file and prints nothing. Hence, after a call that returned a path, every
  later call for the same id that has a URL (the same one or another) returns the same
  path without a request, whatever the network would answer then.
\<close>

theorem cached_headshot_is_reused:
  "(truthy image_url \<and> headshots_dir w \<and> file_path driver_id \<in> files w \<longrightarrow>
      (\<exists>w'. download_headshot env image_url driver_id w =
                (Inr (Some (file_path driver_id)), w') \<and>
            http_calls w' = http_calls w \<and> files w' = files w \<and> stdout w' = stdout w)) \<and>
   (download_headshot env image_url driver_id w = (Inr (Some path), w1) \<longrightarrow>
      truthy image_url \<and>
      (\<forall>env2 url2. truthy url2 \<longrightarrow>
         (\<exists>w2. download_headshot (env2 :: 'i env) url2 driver_id w1 = (Inr (Some path), w2) \<and>
               http_calls w2 = http_calls w1 \<and> files w2 = files w1 \<and> stdout w2 = stdout w1)))"
proof (intro conjI impI allI)
  assume "truthy image_url \<and> headshots_dir w \<and> file_path driver_id \<in> files w"
  then show "\<exists>w'. download_headshot env image_url driver_id w =
                (Inr (Some (file_path driver_id)), w') \<and>
            http_calls w' = http_calls w \<and> files w' = files w \<and> stdout w' = stdout w"
    by (simp add: download_headshot_cached)
next
  assume first: "download_headshot env image_url driver_id w = (Inr (Some path), w1)"
  from download_headshot_path [OF first]
  show "truthy image_url" by simp
next
  fix env2 :: "'i env" and url2
  assume first: "download_headshot env image_url driver_id w = (Inr (Some path), w1)"
    and url2: "truthy url2"
  from download_headshot_path [OF first]
  have p: "path = file_path driver_id" "headshots_dir w1" "file_path driver_id \<in> files w1"
    by auto
  show "\<exists>w2. download_headshot env2 url2 driver_id w1 = (Inr (Some path), w2) \<and>
               http_calls w2 = http_calls w1 \<and> files w2 = files w1 \<and> stdout w2 = stdout w1"
    using download_headshot_cached [OF url2 p(2) p(3), of env2] p(1) by simp
qed

theorem cached_headshot_is_reused_witness:
  "download_headshot (sample_env (Inr \<lparr>status_code = 200, content = Inr ''png''\<rparr>) (Inr ()))
     (PyStr ''http://x/1.png'') (PyInt 1) fresh_world =
     (Inr (Some ''headshots/1.png''),
      \<lparr>headshots_dir = True, files = {''headshots/1.png''},
       fs_calls = [Makedirs ''headshots'', PathExists ''headshots/1.png'',
                   ImageSave ''headshots/1.png''],
       http_calls = [PyStr ''http://x/1.png''], stdout = []\<rparr>) \<and>
   (\<exists>w2. download_headshot (sample_env (Inl ''connection refused'') (Inr ()))
           (PyStr ''http://x/1.png'') (PyInt 1)
           \<lparr>headshots_dir = True, files = {''headshots/1.png''},
            fs_calls = [Makedirs ''headshots'', PathExists ''headshots/1.png'',
                        ImageSave ''headshots/1.png''],
            http_calls = [PyStr ''http://x/1.png''], stdout = []\<rparr> =
           (Inr (Some ''headshots/1.png''), w2) \<and>
         http_calls w2 = [PyStr ''http://x/1.png''] \<and> files w2 = {''headshots/1.png''} \<and>
         stdout w2 = [])"
proof -
  let ?ok = "sample_env (Inr \<lparr>status_code = 200, content = Inr ''png''\<rparr>) (Inr ())"
  let ?w1 = "\<lparr>headshots_dir = True, files = {''headshots/1.png''},
       fs_calls = [Makedirs ''headshots'', PathExists ''headshots/1.png'',
                   ImageSave ''headshots/1.png''],
       http_calls = [PyStr ''http://x/1.png''], stdout = []\<rparr>"
  have one: "int_str 1 = ''1''"
    by code_simp
  have path: "file_path (PyInt 1) = ''headshots/1.png''"
    by (simp add: file_path_def one)
  have first: "download_headshot ?ok (PyStr ''http://x/1.png'') (PyInt 1) fresh_world =
      (Inr (Some ''headshots/1.png''), ?w1)"
    by (simp add: download_headshot_def os_makedirs_def os_path_exists_def try_download_def
        sample_env_def fresh_world_def path Let_def)
  from cached_headshot_is_reused
    [of "PyStr ''http://x/1.png''" fresh_world "PyInt 1" ?ok "''headshots/1.png''" ?w1,
      THEN conjunct2, rule_format, OF first, THEN conjunct2, rule_format,
      of "PyStr ''http://x/1.png''" "sample_env (Inl ''connection refused'') (Inr ())"]
  show ?thesis using first by simp
qed

text \<open>
  Claim C4. A call whose URL is absent (\<^verbatim>\<open>None\<close>) or the empty string returns \<^verbatim>\<open>None\<close> and
  leaves the whole state as it was: the logs of file-system calls and of requests, the
  files and the console are unchanged, so nothing was accessed.
\<close>

theorem no_url_no_access:
  "image_url = PyNone \<or> image_url = PyStr '''' \<Longrightarrow>
   download_headshot env image_url driver_id w = (Inr None, w)"
  by (auto simp: download_headshot_def)

theorem no_url_no_access_witness:
  "download_headshot (sample_env (Inl ''connection refused'') (Inr ())) (PyStr '''')
     (PyStr ''unknown_N/A'') fresh_world = (Inr None, fresh_world) \<and>
   download_headshot (sample_env (Inl ''connection refused'') (Inr ())) PyNone
     (PyInt 1) fresh_world = (Inr None, fresh_world)"
  using no_url_no_access
      [of "PyStr ''''" "sample_env (Inl ''connection refused'') (Inr ())"
        "PyStr ''unknown_N/A''" fresh_world]
    no_url_no_access
      [of PyNone "sample_env (Inl ''connection refused'') (Inr ())" "PyInt 1" fresh_world]
  by simp

lemma download_headshot_miss:
  assumes "truthy image_url" "headshots_dir w \<or> makedirs_raises env = None"
    and "file_path driver_id \<notin> files w"
  shows "download_headshot env image_url driver_id w =
     (case try_download env image_url driver_id
             (w\<lparr>headshots_dir := True,
                fs_calls := fs_calls w @
                   [Makedirs ''headshots'', PathExists (file_path driver_id)]\<rparr>) of
        (Inl e, w3) \<Rightarrow> (Inr None, print_warning driver_id e w3)
      | (Inr (Some path), w3) \<Rightarrow> (Inr (Some path), w3)
      | (Inr None, w3) \<Rightarrow> (Inr None, w3))"
  using assms
  by (simp add: download_headshot_def os_makedirs_possible os_path_exists_headshot)

lemma try_download_not_200:
  assumes "requests_get env (length (http_calls w)) image_url = Inr r" "status_code r \<noteq> 200"
  shows "try_download env image_url driver_id w =
     (Inr None, w\<lparr>http_calls := http_calls w @ [image_url]\<rparr>)"
  using assms by (simp add: try_download_def Let_def)

lemma try_download_raises:
  assumes "requests_get env (length (http_calls w)) image_url = Inl e \<or>
     (\<exists>r. requests_get env (length (http_calls w)) image_url = Inr r \<and> status_code r = 200 \<and>
        (content r = Inl e \<or>
         (\<exists>bytes. content r = Inr bytes \<and>
            (image_open env bytes = Inl e \<or>
             (\<exists>img. image_open env bytes = Inr img \<and> image_resize env img = Inl e)))))"
  shows "try_download env image_url driver_id w =
     (Inl e, w\<lparr>http_calls := http_calls w @ [image_url]\<rparr>)"
  using assms by (auto simp: try_download_def Let_def)

text \<open>
  Claim C5, as amended. For a call that has a URL, with a \<^verbatim>\<open>headshots\<close> directory that
  exists or can be created and no cache file for the id:
  \<^item> when the response has a status other than 200, the call returns \<^verbatim>\<open>None\<close>, prints
    nothing and writes no file;
  \<^item> when the request raises, or the status is 200 and reading the body, opening the image
    or resizing it raises, the call prints the warning with the id and the text of the
    exception, returns \<^verbatim>\<open>None\<close> and writes no file.
  In both cases the call returns normally, with one request made, so the run goes on and
  the record has no image.
\<close>

theorem failed_download_gives_None:
  assumes "truthy image_url" "headshots_dir w \<or> makedirs_raises env = None"
    and "file_path driver_id \<notin> files w"
  shows
    "(\<forall>r. requests_get env (length (http_calls w)) image_url = Inr r \<and> status_code r \<noteq> 200 \<longrightarrow>
        (\<exists>w'. download_headshot env image_url driver_id w = (Inr None, w') \<and>
              stdout w' = stdout w \<and> files w' = files w \<and>
              http_calls w' = http_calls w @ [image_url])) \<and>
     (\<forall>e. (requests_get env (length (http_calls w)) image_url = Inl e \<or>
           (\<exists>r. requests_get env (length (http_calls w)) image_url = Inr r \<and>
              status_code r = 200 \<and>
              (content r = Inl e \<or>
               (\<exists>bytes. content r = Inr bytes \<and>
                  (image_open env bytes = Inl e \<or>
                   (\<exists>img. image_open env bytes = Inr img \<and> image_resize env img = Inl e)))))) \<longrightarrow>
        (\<exists>w'. download_headshot env image_url driver_id w = (Inr None, w') \<and>
              stdout w' = stdout w @
                [warning_sign @ '' Failed to download image for '' @ py_str driver_id @
                 '': '' @ e] \<and>
              files w' = files w \<and> http_calls w' = http_calls w @ [image_url]))"
proof (intro conjI allI impI)
  fix r
  let ?w2 = "w\<lparr>headshots_dir := True, fs_calls := fs_calls w @
      [Makedirs ''headshots'', PathExists (file_path driver_id)]\<rparr>"
  assume "requests_get env (length (http_calls w)) image_url = Inr r \<and> status_code r \<noteq> 200"
  then have "try_download env image_url driver_id ?w2 =
      (Inr None, ?w2\<lparr>http_calls := http_calls ?w2 @ [image_url]\<rparr>)"
    by (intro try_download_not_200 [of env ?w2 image_url r]) simp_all
  then show "\<exists>w'. download_headshot env image_url driver_id w = (Inr None, w') \<and>
      stdout w' = stdout w \<and> files w' = files w \<and> http_calls w' = http_calls w @ [image_url]"
    by (simp add: download_headshot_miss [OF assms])
next
  fix e
  let ?w2 = "w\<lparr>headshots_dir := True, fs_calls := fs_calls w @
      [Makedirs ''headshots'', PathExists (file_path driver_id)]\<rparr>"
  assume "requests_get env (length (http_calls w)) image_url = Inl e \<or>
     (\<exists>r. requests_get env (length (http_calls w)) image_url = Inr r \<and> status_code r = 200 \<and>
        (content r = Inl e \<or>
         (\<exists>bytes. content r = Inr bytes \<and>
            (image_open env bytes = Inl e \<or>
             (\<exists>img. image_open env bytes = Inr img \<and> image_resize env img = Inl e)))))"
  then have "try_download env image_url driver_id ?w2 =
      (Inl e, ?w2\<lparr>http_calls := http_calls ?w2 @ [image_url]\<rparr>)"
    by (intro try_download_raises [of env ?w2 image_url e]) simp
  then show "\<exists>w'. download_headshot env image_url driver_id w = (Inr None, w') \<and>
      stdout w' = stdout w @
        [warning_sign @ '' Failed to download image for '' @ py_str driver_id @ '': '' @ e] \<and>
      files w' = files w \<and> http_calls w' = http_calls w @ [image_url]"
    by (simp add: download_headshot_miss [OF assms] print_warning_def)
qed

theorem failed_download_gives_None_witness:
  "(\<exists>w'. download_headshot
            (sample_env (Inr \<lparr>status_code = 200, content = Inr ''not an image''\<rparr>)
               (Inl ''cannot identify image file''))
            (PyStr ''http://x/1.png'') (PyStr ''VER'') fresh_world = (Inr None, w') \<and>
         stdout w' =
           [warning_sign @ '' Failed to download image for VER: cannot identify image file''] \<and>
         files w' = {} \<and> http_calls w' = [PyStr ''http://x/1.png'']) \<and>
   (\<exists>w'. download_headshot
            (sample_env (Inr \<lparr>status_code = 503, content = Inr ''''\<rparr>) (Inr ()))
            (PyStr ''http://x/1.png'') (PyStr ''VER'') fresh_world = (Inr None, w') \<and>
         stdout w' = [] \<and> files w' = {} \<and> http_calls w' = [PyStr ''http://x/1.png''])"
proof -
  let ?bad = "sample_env (Inr \<lparr>status_code = 200, content = Inr ''not an image''\<rparr>)
      (Inl ''cannot identify image file'')"
  let ?down = "sample_env (Inr \<lparr>status_code = 503, content = Inr ''''\<rparr>) (Inr ())"
  have url: "truthy (PyStr ''http://x/1.png'')" by simp
  have dir: "headshots_dir fresh_world \<or> makedirs_raises ?bad = None"
    "headshots_dir fresh_world \<or> makedirs_raises ?down = None"
    by (simp_all add: sample_env_def)
  have nofile: "file_path (PyStr ''VER'') \<notin> files fresh_world"
    by (simp add: fresh_world_def)
  from failed_download_gives_None [OF url dir(1) nofile, THEN conjunct2, rule_format,
      of "''cannot identify image file''"]
    failed_download_gives_None [OF url dir(2) nofile, THEN conjunct1, rule_format,
      of "\<lparr>status_code = 503, content = Inr ''''\<rparr>"]
  show ?thesis
    by (simp add: sample_env_def fresh_world_def)
qed

text \<open>
  The claim as the spec states it fails: the server answers 503, the call returns
  \<^verbatim>\<open>None\<close>, and the console is as empty as before.
\<close>

theorem silent_on_status_503_counterexample:
  "download_headshot (sample_env (Inr \<lparr>status_code = 503, content = Inr ''''\<rparr>) (Inr ()))
     (PyStr ''http://x/1.png'') (PyStr ''VER'') fresh_world =
     (Inr None,
      \<lparr>headshots_dir = True, files = {},
       fs_calls = [Makedirs ''headshots'', PathExists ''headshots/VER.png''],
       http_calls = [PyStr ''http://x/1.png''], stdout = []\<rparr>)"
  by (simp add: download_headshot_def os_makedirs_def os_path_exists_def try_download_def
      sample_env_def fresh_world_def file_path_def Let_def)

section \<open>The id of a driver\<close>

text \<open>
  Claim C6, as amended. The id under which a headshot is cached is the value of
  \<^verbatim>\<open>driver_id\<close> when the record has that key; otherwise it is \<^verbatim>\<open>unknown_\<close> followed by
  the text of the driver number, where an absent driver number counts as \<^verbatim>\<open>N/A\<close>, so a
  record with neither has the id \<^verbatim>\<open>unknown_N/A\<close>. The path returned for a record is the
  cache path of that id.
\<close>

theorem driver_id_is_explicit_or_prefixed_number:
  "main_driver_id driver =
     (case driver ''driver_id'' of
        Some v \<Rightarrow> v
      | None \<Rightarrow>
          PyStr (''unknown_'' @
            (case driver ''driver_number'' of None \<Rightarrow> ''N/A'' | Some n \<Rightarrow> py_str n))) \<and>
   (\<forall>path w'. main_headshot env driver w = (Inr (Some path), w') \<longrightarrow>
      path = ''headshots/'' @ py_str (main_driver_id driver) @ ''.png'')"
proof (intro conjI allI impI)
  show "main_driver_id driver =
     (case driver ''driver_id'' of
        Some v \<Rightarrow> v
      | None \<Rightarrow>
          PyStr (''unknown_'' @
            (case driver ''driver_number'' of None \<Rightarrow> ''N/A'' | Some n \<Rightarrow> py_str n)))"
    by (simp add: main_driver_id_def dict_get_def split: option.splits)
next
  fix path w'
  assume "main_headshot env driver w = (Inr (Some path), w')"
  then have "download_headshot env (dict_get driver ''headshot_url'' PyNone)
      (main_driver_id driver) w = (Inr (Some path), w')"
    by (simp add: main_headshot_def Let_def split: if_splits)
  from download_headshot_path [OF this]
  show "path = ''headshots/'' @ py_str (main_driver_id driver) @ ''.png''"
    by (simp add: file_path_def)
qed

theorem driver_id_is_explicit_or_prefixed_number_witness:
  "main_driver_id [''driver_number'' \<mapsto> PyInt 1, ''headshot_url'' \<mapsto> PyStr ''http://x/1.png''] =
     PyStr ''unknown_1'' \<and>
   fst (main_headshot (sample_env (Inr \<lparr>status_code = 200, content = Inr ''png''\<rparr>) (Inr ()))
          [''driver_number'' \<mapsto> PyInt 1, ''headshot_url'' \<mapsto> PyStr ''http://x/1.png'']
          fresh_world) = Inr (Some ''headshots/unknown_1.png'')"
proof -
  let ?d = "[''driver_number'' \<mapsto> PyInt 1, ''headshot_url'' \<mapsto> PyStr ''http://x/1.png'']"
  let ?env = "sample_env (Inr \<lparr>status_code = 200, content = Inr ''png''\<rparr>) (Inr ())"
  have one: "int_str 1 = ''1''"
    by code_simp
  have id: "main_driver_id ?d = PyStr ''unknown_1''"
    using driver_id_is_explicit_or_prefixed_number [of ?d ?env fresh_world, THEN conjunct1]
    by (simp add: one)
  obtain r w' where run: "main_headshot ?env ?d fresh_world = (r, w')"
    by fastforce
  have "r = Inr (Some (file_path (PyStr ''unknown_1'')))"
    using run
    by (simp add: main_headshot_def dict_get_def id download_headshot_def os_makedirs_def
        os_path_exists_headshot try_download_def sample_env_def fresh_world_def Let_def)
  then show ?thesis
    using run id by (simp add: file_path_def)
qed

text \<open>
  The claim as the spec states it fails: for the record without an id and without a
  driver number, the id is \<^verbatim>\<open>unknown_N/A\<close>, not \<^verbatim>\<open>N/A\<close>.
\<close>

theorem driver_id_without_number_counterexample:
  "main_driver_id Map.empty = PyStr ''unknown_N/A'' \<and> main_driver_id Map.empty \<noteq> PyStr ''N/A''"
  by (simp add: main_driver_id_def dict_get_def)

section \<open>The table\<close>

lemma os_path_exists_logo:
  "os_path_exists ''f1_logo.png'' w =
     (''f1_logo.png'' \<in> files w, w\<lparr>fs_calls := fs_calls w @ [PathExists ''f1_logo.png'']\<rparr>)"
  by (simp add: os_path_exists_def)

lemma noheadshot_populate_rows:
  "noheadshot_populate HexColor ds (td, rc) = Inr (td', rc') \<Longrightarrow>
   td' = td @ map noheadshot_row ds \<and> length rc' = length rc + length ds"
proof (induction ds arbitrary: td rc)
  case Nil
  then show ?case by simp
next
  case (Cons d ds)
  from Cons.prems obtain c where c: "noheadshot_team_color HexColor d = Inr c"
    by (cases "noheadshot_team_color HexColor d") auto
  with Cons.prems
  have "noheadshot_populate HexColor ds (td @ [noheadshot_row d], rc @ [c]) = Inr (td', rc')"
    by simp
  from Cons.IH [OF this] show ?case by simp
qed

lemma noheadshot_populate_raises:
  "driver \<in> set ds \<Longrightarrow> noheadshot_team_color HexColor driver = Inl e \<Longrightarrow>
   \<exists>e'. noheadshot_populate HexColor ds (td, rc) = Inl e'"
proof (induction ds arbitrary: td rc)
  case Nil
  then show ?case by simp
next
  case (Cons d ds)
  then show ?case
    by (cases "noheadshot_team_color HexColor d") auto
qed

lemma noheadshot_row_styles_in_range:
  "\<forall>i \<in> set later. i - 1 < length rc \<Longrightarrow>
   noheadshot_row_styles later rc style =
     Inr (style @ map (\<lambda>i. BACKGROUND (0, int i) (- 1, int i) (Hex (rc ! (i - 1)))) later)"
  by (induction later arbitrary: style) auto

lemma main_row_styles_eq_noheadshot:
  "main_row_styles later rc style = noheadshot_row_styles later rc style"
  by (induction later arbitrary: style) auto

lemma main_populate_rows:
  "main_populate env HexColor ds (td, rc) w = (Inr (td', rc'), w') \<Longrightarrow>
   \<exists>images. length images = length ds \<and>
     td' = td @ map (\<lambda>(image_cell, driver). main_row image_cell driver) (zip images ds) \<and>
     length rc' = length rc + length ds \<and>
     noheadshot_populate HexColor ds (td2, rc) = Inr (td2 @ map noheadshot_row ds, rc')"
proof (induction ds arbitrary: td rc w td2)
  case Nil
  then show ?case by simp
next
  case (Cons d ds)
  obtain r w1 where h: "main_headshot env d w = (r, w1)" by fastforce
  with Cons.prems obtain headshot where r: "r = Inr headshot"
    by (cases r) auto
  with Cons.prems h obtain c where c: "main_team_color HexColor d = Inr c"
    by (cases "main_team_color HexColor d") auto
  with Cons.prems h r
  have step: "main_populate env HexColor ds
      (td @ [main_row (main_image headshot) d], rc @ [c]) w1 = (Inr (td', rc'), w')"
    by simp
  from Cons.IH [OF step, of "td2 @ [noheadshot_row d]"]
  obtain images where i: "length images = length ds"
    "td' = (td @ [main_row (main_image headshot) d]) @
       map (\<lambda>(image_cell, driver). main_row image_cell driver) (zip images ds)"
    "length rc' = length (rc @ [c]) + length ds"
    "noheadshot_populate HexColor ds (td2 @ [noheadshot_row d], rc @ [c]) =
       Inr ((td2 @ [noheadshot_row d]) @ map noheadshot_row ds, rc')"
    by blast
  have "noheadshot_team_color HexColor d = Inr c"
    using c by (simp add: main_team_color_eq_noheadshot)
  with i show ?case
    by (intro exI [of _ "main_image headshot # images"]) simp
qed

lemma main_populate_raises:
  "driver \<in> set ds \<Longrightarrow> main_team_color HexColor driver = Inl e \<Longrightarrow>
   \<exists>e' w'. main_populate env HexColor ds (td, rc) w = (Inl e', w')"
proof (induction ds arbitrary: td rc w)
  case Nil
  then show ?case by simp
next
  case (Cons d ds)
  obtain r w1 where h: "main_headshot env d w = (r, w1)" by fastforce
  show ?case
  proof (cases r)
    case (Inl e1)
    with h show ?thesis by simp
  next
    case (Inr headshot)
    show ?thesis
    proof (cases "main_team_color HexColor d")
      case (Inl e2)
      with h Inr show ?thesis by simp
    next
      case c: (Inr c)
      with Cons.prems have "driver \<in> set ds" by auto
      from Cons.IH [OF this Cons.prems(2)] h Inr c show ?thesis by simp
    qed
  qed
qed

lemma noheadshot_create_pdf_built:
  assumes "noheadshot_populate HexColor ds ([noheadshot_header], []) = Inr (td, rc)"
  shows "noheadshot_create_pdf HexColor ds fname w =
     (Inr \<lparr>filename = fname,
           elements =
             (if ''f1_logo.png'' \<in> files w then [RLImage ''f1_logo.png'' 100 50] else []) @
             [Paragraph title_markup ''Title'', Spacer 1 12,
              Table (noheadshot_header # map noheadshot_row ds) [60, 150, 80, 140, 100, 100]
                (noheadshot_style @
                 map (\<lambda>i. BACKGROUND (0, int i) (- 1, int i) (Hex (rc ! (i - 1))))
                   [1..<length ds + 1])]\<rparr>,
      w\<lparr>fs_calls := fs_calls w @ [PathExists ''f1_logo.png'']\<rparr>)"
proof -
  from noheadshot_populate_rows [OF assms]
  have td: "td = noheadshot_header # map noheadshot_row ds" and rc: "length rc = length ds"
    by simp_all
  have "noheadshot_row_styles [1..<length td] rc noheadshot_style =
      Inr (noheadshot_style @
           map (\<lambda>i. BACKGROUND (0, int i) (- 1, int i) (Hex (rc ! (i - 1)))) [1..<length td])"
    by (rule noheadshot_row_styles_in_range) (use td rc in auto)
  then show ?thesis
    using assms td by (simp add: noheadshot_create_pdf_def os_path_exists_logo)
qed

lemma main_create_pdf_built:
  assumes "main_populate env HexColor ds ([main_header], [])
      (w\<lparr>fs_calls := fs_calls w @ [PathExists ''f1_logo.png'']\<rparr>) = (Inr (td, rc), w2)"
  shows "length rc = length ds \<and> length td = length ds + 1 \<and>
     main_create_pdf env HexColor ds fname w =
     (Inr \<lparr>filename = fname,
           elements =
             (if ''f1_logo.png'' \<in> files w then [RLImage ''f1_logo.png'' 100 50] else []) @
             [Paragraph title_markup ''Title'', Spacer 1 12,
              Table td [60, 60, 150, 80, 140, 100, 100]
                (main_style @
                 map (\<lambda>i. BACKGROUND (0, int i) (- 1, int i) (Hex (rc ! (i - 1))))
                   [1..<length ds + 1])]\<rparr>,
      w2)"
proof -
  from main_populate_rows [OF assms, of "[]"]
  have len: "length td = length ds + 1" "length rc = length ds"
    by auto
  have "main_row_styles [1..<length td] rc main_style =
      Inr (main_style @
           map (\<lambda>i. BACKGROUND (0, int i) (- 1, int i) (Hex (rc ! (i - 1)))) [1..<length td])"
    unfolding main_row_styles_eq_noheadshot
    by (rule noheadshot_row_styles_in_range) (use len in auto)
  then show ?thesis
    using assms len by (simp add: main_create_pdf_def os_path_exists_logo)
qed

lemma main_create_pdf_populated:
  assumes "main_create_pdf env HexColor ds fname w = (Inr doc, w')"
  shows "\<exists>td rc. main_populate env HexColor ds ([main_header], [])
      (w\<lparr>fs_calls := fs_calls w @ [PathExists ''f1_logo.png'']\<rparr>) = (Inr (td, rc), w')"
proof -
  let ?w1 = "w\<lparr>fs_calls := fs_calls w @ [PathExists ''f1_logo.png'']\<rparr>"
  obtain r w2 where p: "main_populate env HexColor ds ([main_header], []) ?w1 = (r, w2)"
    by fastforce
  with assms obtain td rc where r: "r = Inr (td, rc)"
    by (cases r) (auto simp: main_create_pdf_def os_path_exists_logo)
  with assms p have "w2 = w'"
    by (auto simp: main_create_pdf_def os_path_exists_logo split: sum.splits)
  with p r show ?thesis by blast
qed

lemma noheadshot_create_pdf_populated:
  assumes "noheadshot_create_pdf HexColor ds fname w = (Inr doc, w')"
  shows "\<exists>td rc. noheadshot_populate HexColor ds ([noheadshot_header], []) = Inr (td, rc)"
  using assms
  by (cases "noheadshot_populate HexColor ds ([noheadshot_header], [])")
    (auto simp: noheadshot_create_pdf_def os_path_exists_logo)

lemma noheadshot_populate_returns:
  "\<forall>d \<in> set ds. \<exists>c. noheadshot_team_color HexColor d = Inr c \<Longrightarrow>
   \<exists>td' rc'. noheadshot_populate HexColor ds (td, rc) = Inr (td', rc')"
proof (induction ds arbitrary: td rc)
  case Nil
  then show ?case by simp
next
  case (Cons d ds)
  from Cons.prems obtain c where c: "noheadshot_team_color HexColor d = Inr c"
    by auto
  from Cons.prems have rest: "\<forall>d \<in> set ds. \<exists>c. noheadshot_team_color HexColor d = Inr c"
    by simp
  from Cons.IH [OF rest, of "td @ [noheadshot_row d]" "rc @ [c]"] c
  show ?case by simp
qed

lemma try_download_keeps_dir:
  "try_download env image_url driver_id w = (r, w1) \<Longrightarrow> headshots_dir w1 = headshots_dir w"
  by (auto simp: try_download_def Let_def split: if_splits sum.splits save_outcome.splits)

lemma download_headshot_returns:
  assumes "headshots_dir w \<or> makedirs_raises env = None"
  shows "\<exists>headshot w1. download_headshot env image_url driver_id w = (Inr headshot, w1) \<and>
     (headshots_dir w1 \<or> makedirs_raises env = None)"
proof (cases "truthy image_url")
  case False
  with assms show ?thesis
    by (simp add: download_headshot_def)
next
  case url: True
  let ?w2 = "w\<lparr>headshots_dir := True,
      fs_calls := fs_calls w @ [Makedirs ''headshots'', PathExists (file_path driver_id)]\<rparr>"
  show ?thesis
  proof (cases "file_path driver_id \<in> files w")
    case True
    with url assms show ?thesis
      by (simp add: download_headshot_def os_makedirs_possible os_path_exists_headshot)
  next
    case False
    obtain r3 w3 where t: "try_download env image_url driver_id ?w2 = (r3, w3)"
      by fastforce
    from try_download_keeps_dir [OF t] have dir: "headshots_dir w3"
      by simp
    show ?thesis
    proof (cases r3)
      case (Inl e)
      with t dir show ?thesis
        by (simp add: download_headshot_miss [OF url assms False] print_warning_def)
    next
      case (Inr found)
      with t dir show ?thesis
        by (cases found) (simp_all add: download_headshot_miss [OF url assms False])
    qed
  qed
qed

lemma main_headshot_returns:
  assumes "headshots_dir w \<or> makedirs_raises env = None"
  shows "\<exists>headshot w1. main_headshot env driver w = (Inr headshot, w1) \<and>
     (headshots_dir w1 \<or> makedirs_raises env = None)"
proof (cases "truthy (dict_get driver ''headshot_url'' PyNone)")
  case True
  with download_headshot_returns [OF assms] show ?thesis
    by (simp add: main_headshot_def)
next
  case False
  with assms show ?thesis
    by (simp add: main_headshot_def)
qed

lemma main_populate_returns:
  "\<forall>d \<in> set ds. \<exists>c. main_team_color HexColor d = Inr c \<Longrightarrow>
   headshots_dir w \<or> makedirs_raises env = None \<Longrightarrow>
   \<exists>td' rc' w'. main_populate env HexColor ds (td, rc) w = (Inr (td', rc'), w')"
proof (induction ds arbitrary: td rc w)
  case Nil
  then show ?case by simp
next
  case (Cons d ds)
  from main_headshot_returns [OF Cons.prems(2), where driver = d]
  obtain headshot w1 where h: "main_headshot env d w = (Inr headshot, w1)"
    and dir: "headshots_dir w1 \<or> makedirs_raises env = None"
    by blast
  from Cons.prems(1) obtain c where c: "main_team_color HexColor d = Inr c"
    by auto
  from Cons.prems(1) have rest: "\<forall>d \<in> set ds. \<exists>c. main_team_color HexColor d = Inr c"
    by simp
  from Cons.IH [OF rest dir, of "td @ [main_row (main_image headshot) d]" "rc @ [c]"] h c
  show ?case by simp
qed

text \<open>
  Claim C7. \<open>create_pdf\<close> hands its document to the layout engine whenever the colour of
  every record can be built and, for main.py, the \<^verbatim>\<open>headshots\<close> directory exists or can
  be created; for the empty list this is always so. The document then ends with one
  table whose first row is the header and whose further rows are the rows of the
  records, one each and in input order, so that the table has one row more than there
  are records (in main.py each row is the row of its record behind some image cell). For
  the empty list the table is the header row alone, under the unchanged base style.
  Conversely, every document that \<open>create_pdf\<close> hands over has this table. Laying the
  document out is the work of reportlab.
\<close>

theorem table_is_header_plus_record_rows:
  "(\<forall>doc w'. noheadshot_create_pdf HexColor ds fname w = (Inr doc, w') \<longrightarrow>
      (\<exists>front rows style.
         elements doc = front @ [Table rows [60, 150, 80, 140, 100, 100] style] \<and>
         rows = noheadshot_header # map noheadshot_row ds \<and>
         length rows = length ds + 1)) \<and>
   (\<forall>doc w'. main_create_pdf env HexColor ds fname w = (Inr doc, w') \<longrightarrow>
      (\<exists>front rows style images.
         elements doc = front @ [Table rows [60, 60, 150, 80, 140, 100, 100] style] \<and>
         length images = length ds \<and>
         rows = main_header #
           map (\<lambda>(image_cell, driver). main_row image_cell driver) (zip images ds) \<and>
         length rows = length ds + 1)) \<and>
   noheadshot_create_pdf HexColor [] fname w =
     (Inr \<lparr>filename = fname,
           elements =
             (if ''f1_logo.png'' \<in> files w then [RLImage ''f1_logo.png'' 100 50] else []) @
             [Paragraph title_markup ''Title'', Spacer 1 12,
              Table [noheadshot_header] [60, 150, 80, 140, 100, 100] noheadshot_style]\<rparr>,
      w\<lparr>fs_calls := fs_calls w @ [PathExists ''f1_logo.png'']\<rparr>) \<and>
   main_create_pdf env HexColor [] fname w =
     (Inr \<lparr>filename = fname,
           elements =
             (if ''f1_logo.png'' \<in> files w then [RLImage ''f1_logo.png'' 100 50] else []) @
             [Paragraph title_markup ''Title'', Spacer 1 12,
              Table [main_header] [60, 60, 150, 80, 140, 100, 100] main_style]\<rparr>,
      w\<lparr>fs_calls := fs_calls w @ [PathExists ''f1_logo.png'']\<rparr>) \<and>
   ((\<forall>d \<in> set ds. \<exists>c. noheadshot_team_color HexColor d = Inr c) \<longrightarrow>
      (\<exists>doc front rows style.
         noheadshot_create_pdf HexColor ds fname w =
           (Inr doc, w\<lparr>fs_calls := fs_calls w @ [PathExists ''f1_logo.png'']\<rparr>) \<and>
         elements doc = front @ [Table rows [60, 150, 80, 140, 100, 100] style] \<and>
         rows = noheadshot_header # map noheadshot_row ds \<and>
         length rows = length ds + 1)) \<and>
   ((\<forall>d \<in> set ds. \<exists>c. main_team_color HexColor d = Inr c) \<and>
    (headshots_dir w \<or> makedirs_raises env = None) \<longrightarrow>
      (\<exists>doc w' front rows style images.
         main_create_pdf env HexColor ds fname w = (Inr doc, w') \<and>
         elements doc = front @ [Table rows [60, 60, 150, 80, 140, 100, 100] style] \<and>
         length images = length ds \<and>
         rows = main_header #
           map (\<lambda>(image_cell, driver). main_row image_cell driver) (zip images ds) \<and>
         length rows = length ds + 1))"
proof -
  let ?w1 = "w\<lparr>fs_calls := fs_calls w @ [PathExists ''f1_logo.png'']\<rparr>"
  let ?front = "(if ''f1_logo.png'' \<in> files w then [RLImage ''f1_logo.png'' 100 50] else []) @
      [Paragraph title_markup ''Title'', Spacer 1 12]"
  have built_noheadshot: "\<exists>front rows style.
      elements doc = front @ [Table rows [60, 150, 80, 140, 100, 100] style] \<and>
      rows = noheadshot_header # map noheadshot_row ds \<and> length rows = length ds + 1"
    if run: "noheadshot_create_pdf HexColor ds fname w = (Inr doc, w')" for doc w'
  proof -
    from noheadshot_create_pdf_populated [OF run] obtain td rc
      where p: "noheadshot_populate HexColor ds ([noheadshot_header], []) = Inr (td, rc)"
      by blast
    from noheadshot_create_pdf_built [OF p, of fname w] run
    have "elements doc = ?front @
        [Table (noheadshot_header # map noheadshot_row ds) [60, 150, 80, 140, 100, 100]
           (noheadshot_style @
            map (\<lambda>i. BACKGROUND (0, int i) (- 1, int i) (Hex (rc ! (i - 1))))
              [1..<length ds + 1])]"
      by auto
    then show ?thesis
      by (intro exI [of _ ?front] exI [of _ "noheadshot_header # map noheadshot_row ds"]
          exI [of _ "noheadshot_style @
            map (\<lambda>i. BACKGROUND (0, int i) (- 1, int i) (Hex (rc ! (i - 1))))
              [1..<length ds + 1]"]) simp
  qed
  have built_main: "\<exists>front rows style images.
      elements doc = front @ [Table rows [60, 60, 150, 80, 140, 100, 100] style] \<and>
      length images = length ds \<and>
      rows = main_header #
        map (\<lambda>(image_cell, driver). main_row image_cell driver) (zip images ds) \<and>
      length rows = length ds + 1"
    if run: "main_create_pdf env HexColor ds fname w = (Inr doc, w')" for doc w'
  proof -
    from main_create_pdf_populated [OF run] obtain td rc
      where p: "main_populate env HexColor ds ([main_header], []) ?w1 = (Inr (td, rc), w')"
      by blast
    from main_populate_rows [OF p, of "[]"] obtain images where i: "length images = length ds"
      "td = main_header #
         map (\<lambda>(image_cell, driver). main_row image_cell driver) (zip images ds)"
      by auto
    from main_create_pdf_built [OF p, of fname] run
    have e: "elements doc = ?front @
        [Table td [60, 60, 150, 80, 140, 100, 100]
           (main_style @
            map (\<lambda>i. BACKGROUND (0, int i) (- 1, int i) (Hex (rc ! (i - 1))))
              [1..<length ds + 1])]"
      by auto
    have "length td = length ds + 1"
      using i by simp
    with e i show ?thesis
      by blast
  qed
  have empty_noheadshot: "noheadshot_create_pdf HexColor [] fname w =
     (Inr \<lparr>filename = fname,
           elements =
             (if ''f1_logo.png'' \<in> files w then [RLImage ''f1_logo.png'' 100 50] else []) @
             [Paragraph title_markup ''Title'', Spacer 1 12,
              Table [noheadshot_header] [60, 150, 80, 140, 100, 100] noheadshot_style]\<rparr>,
      ?w1)"
    by (simp add: noheadshot_create_pdf_def os_path_exists_logo)
  have empty_main: "main_create_pdf env HexColor [] fname w =
     (Inr \<lparr>filename = fname,
           elements =
             (if ''f1_logo.png'' \<in> files w then [RLImage ''f1_logo.png'' 100 50] else []) @
             [Paragraph title_markup ''Title'', Spacer 1 12,
              Table [main_header] [60, 60, 150, 80, 140, 100, 100] main_style]\<rparr>,
      ?w1)"
    by (simp add: main_create_pdf_def os_path_exists_logo)
  have returns_noheadshot: "\<exists>doc front rows style.
      noheadshot_create_pdf HexColor ds fname w = (Inr doc, ?w1) \<and>
      elements doc = front @ [Table rows [60, 150, 80, 140, 100, 100] style] \<and>
      rows = noheadshot_header # map noheadshot_row ds \<and> length rows = length ds + 1"
    if colours: "\<forall>d \<in> set ds. \<exists>c. noheadshot_team_color HexColor d = Inr c"
  proof -
    from noheadshot_populate_returns [OF colours, of "[noheadshot_header]" "[]"]
    obtain td rc
      where p: "noheadshot_populate HexColor ds ([noheadshot_header], []) = Inr (td, rc)"
      by blast
    from noheadshot_create_pdf_built [OF p, of fname w] obtain doc
      where run: "noheadshot_create_pdf HexColor ds fname w = (Inr doc, ?w1)"
      by blast
    from built_noheadshot [OF run] run show ?thesis
      by blast
  qed
  have returns_main: "\<exists>doc w' front rows style images.
      main_create_pdf env HexColor ds fname w = (Inr doc, w') \<and>
      elements doc = front @ [Table rows [60, 60, 150, 80, 140, 100, 100] style] \<and>
      length images = length ds \<and>
      rows = main_header #
        map (\<lambda>(image_cell, driver). main_row image_cell driver) (zip images ds) \<and>
      length rows = length ds + 1"
    if ok: "(\<forall>d \<in> set ds. \<exists>c. main_team_color HexColor d = Inr c) \<and>
      (headshots_dir w \<or> makedirs_raises env = None)"
  proof -
    from ok have colours: "\<forall>d \<in> set ds. \<exists>c. main_team_color HexColor d = Inr c"
      and dir: "headshots_dir ?w1 \<or> makedirs_raises env = None"
      by simp_all
    from main_populate_returns [OF colours dir, of "[main_header]" "[]"]
    obtain td rc w'
      where p: "main_populate env HexColor ds ([main_header], []) ?w1 = (Inr (td, rc), w')"
      by blast
    from main_create_pdf_built [OF p, of fname] obtain doc
      where run: "main_create_pdf env HexColor ds fname w = (Inr doc, w')"
      by blast
    from built_main [OF run] run show ?thesis
      by blast
  qed
  from built_noheadshot built_main empty_noheadshot empty_main returns_noheadshot returns_main
  show ?thesis
    by blast
qed

theorem table_is_header_plus_record_rows_witness:
  "fst (main_create_pdf (sample_env (Inr \<lparr>status_code = 200, content = Inr ''png''\<rparr>) (Inr ()))
     sample_HexColor
     [[''driver_number'' \<mapsto> PyInt 1, ''team_colour'' \<mapsto> PyStr ''3671C6''],
      [''driver_number'' \<mapsto> PyInt 44, ''headshot_url'' \<mapsto> PyStr ''http://x/44.png'']]
     ''out.pdf'' fresh_world) =
     Inr \<lparr>filename = ''out.pdf'',
          elements =
            [Paragraph title_markup ''Title'', Spacer 1 12,
             Table
               [main_header,
                main_row (Val (PyStr ''N/A''))
                  [''driver_number'' \<mapsto> PyInt 1, ''team_colour'' \<mapsto> PyStr ''3671C6''],
                main_row (RLImageCell ''headshots/unknown_44.png'' 50 50)
                  [''driver_number'' \<mapsto> PyInt 44, ''headshot_url'' \<mapsto> PyStr ''http://x/44.png'']]
               [60, 60, 150, 80, 140, 100, 100]
               (main_style @
                [BACKGROUND (0, 1) (- 1, 1) (Hex ''#3671C6''),
                 BACKGROUND (0, 2) (- 1, 2) (Hex ''#CCCCCC'')])]\<rparr> \<and>
   (\<exists>doc w' front rows style images.
      main_create_pdf (sample_env (Inr \<lparr>status_code = 200, content = Inr ''png''\<rparr>) (Inr ()))
        sample_HexColor
        [[''driver_number'' \<mapsto> PyInt 1, ''team_colour'' \<mapsto> PyStr ''3671C6''],
         [''driver_number'' \<mapsto> PyInt 44, ''headshot_url'' \<mapsto> PyStr ''http://x/44.png'']]
        ''out.pdf'' fresh_world = (Inr doc, w') \<and>
      elements doc = front @ [Table rows [60, 60, 150, 80, 140, 100, 100] style] \<and>
      length images =
        length
          [[''driver_number'' \<mapsto> PyInt 1, ''team_colour'' \<mapsto> PyStr ''3671C6''],
           [''driver_number'' \<mapsto> PyInt 44, ''headshot_url'' \<mapsto> PyStr ''http://x/44.png'']] \<and>
      rows = main_header #
        map (\<lambda>(image_cell, driver). main_row image_cell driver)
          (zip images
            [[''driver_number'' \<mapsto> PyInt 1, ''team_colour'' \<mapsto> PyStr ''3671C6''],
             [''driver_number'' \<mapsto> PyInt 44,
              ''headshot_url'' \<mapsto> PyStr ''http://x/44.png'']]) \<and>
      length rows =
        length
          [[''driver_number'' \<mapsto> PyInt 1, ''team_colour'' \<mapsto> PyStr ''3671C6''],
           [''driver_number'' \<mapsto> PyInt 44, ''headshot_url'' \<mapsto> PyStr ''http://x/44.png'']] +
        1) \<and>
   (\<exists>doc front rows style.
      noheadshot_create_pdf sample_HexColor
        [[''driver_number'' \<mapsto> PyInt 1, ''team_colour'' \<mapsto> PyStr ''3671C6''],
         [''driver_number'' \<mapsto> PyInt 44, ''headshot_url'' \<mapsto> PyStr ''http://x/44.png'']]
        ''out.pdf'' fresh_world =
        (Inr doc,
         fresh_world\<lparr>fs_calls := fs_calls fresh_world @ [PathExists ''f1_logo.png'']\<rparr>) \<and>
      elements doc = front @ [Table rows [60, 150, 80, 140, 100, 100] style] \<and>
      rows = noheadshot_header #
        map noheadshot_row
          [[''driver_number'' \<mapsto> PyInt 1, ''team_colour'' \<mapsto> PyStr ''3671C6''],
           [''driver_number'' \<mapsto> PyInt 44, ''headshot_url'' \<mapsto> PyStr ''http://x/44.png'']] \<and>
      length rows =
        length
          [[''driver_number'' \<mapsto> PyInt 1, ''team_colour'' \<mapsto> PyStr ''3671C6''],
           [''driver_number'' \<mapsto> PyInt 44, ''headshot_url'' \<mapsto> PyStr ''http://x/44.png'']] +
        1)"
proof -
  let ?d1 = "[''driver_number'' \<mapsto> PyInt 1, ''team_colour'' \<mapsto> PyStr ''3671C6'']"
  let ?d2 = "[''driver_number'' \<mapsto> PyInt 44, ''headshot_url'' \<mapsto> PyStr ''http://x/44.png'']"
  let ?env = "sample_env (Inr \<lparr>status_code = 200, content = Inr ''png''\<rparr>) (Inr ())"
  let ?w1 = "fresh_world\<lparr>fs_calls := fs_calls fresh_world @ [PathExists ''f1_logo.png'']\<rparr>"
  have lower: "str_lower ''3671C6'' \<noteq> ''none''"
    by (simp add: str_lower_def lower_char_def)
  have c1: "noheadshot_team_color sample_HexColor ?d1 = Inr ''#3671C6''"
    using team_color_given [of ?d1 "''3671C6''" sample_HexColor] lower
    by (simp add: sample_HexColor_def)
  have c2: "noheadshot_team_color sample_HexColor ?d2 = Inr ''#CCCCCC''"
    by (simp add: noheadshot_team_color_def dict_get_def sample_HexColor_def)
  have colours_noheadshot:
    "\<forall>d \<in> set [?d1, ?d2]. \<exists>c. noheadshot_team_color sample_HexColor d = Inr c"
    using c1 c2 by simp
  have colours_main: "\<forall>d \<in> set [?d1, ?d2]. \<exists>c. main_team_color sample_HexColor d = Inr c"
    using c1 c2 by (simp add: main_team_color_eq_noheadshot)
  have dir: "headshots_dir fresh_world \<or> makedirs_raises ?env = None"
    by (simp add: sample_env_def)
  have number: "int_str 44 = ''44''"
    by code_simp
  have id2: "main_driver_id ?d2 = PyStr ''unknown_44''"
    by (simp add: main_driver_id_def dict_get_def number)
  have h1: "main_headshot ?env ?d1 ?w1 = (Inr None, ?w1)"
    by (simp add: main_headshot_def dict_get_def)
  obtain r2 w2 where run2: "main_headshot ?env ?d2 ?w1 = (r2, w2)"
    by fastforce
  then have "r2 = Inr (Some (file_path (PyStr ''unknown_44'')))"
    by (simp add: main_headshot_def dict_get_def id2 download_headshot_def os_makedirs_def
        os_path_exists_headshot try_download_def sample_env_def fresh_world_def Let_def)
  then have h2: "main_headshot ?env ?d2 ?w1 = (Inr (Some ''headshots/unknown_44.png''), w2)"
    using run2 by (simp add: file_path_def)
  have populate: "main_populate ?env sample_HexColor [?d1, ?d2] ([main_header], []) ?w1 =
      (Inr ([main_header, main_row (Val (PyStr ''N/A'')) ?d1,
             main_row (RLImageCell ''headshots/unknown_44.png'' 50 50) ?d2],
            [''#3671C6'', ''#CCCCCC'']), w2)"
    using c1 c2 by (simp add: main_team_color_eq_noheadshot h1 h2 main_image_def)
  have range: "[1..<length [?d1, ?d2] + 1] = [1, 2]"
    by (simp add: upt_rec)
  have run: "fst (main_create_pdf ?env sample_HexColor [?d1, ?d2] ''out.pdf'' fresh_world) =
      Inr \<lparr>filename = ''out.pdf'',
           elements =
             [Paragraph title_markup ''Title'', Spacer 1 12,
              Table [main_header, main_row (Val (PyStr ''N/A'')) ?d1,
                     main_row (RLImageCell ''headshots/unknown_44.png'' 50 50) ?d2]
                [60, 60, 150, 80, 140, 100, 100]
                (main_style @
                 [BACKGROUND (0, 1) (- 1, 1) (Hex ''#3671C6''),
                  BACKGROUND (0, 2) (- 1, 2) (Hex ''#CCCCCC'')])]\<rparr>"
    using main_create_pdf_built [OF populate, of "''out.pdf''"]
    by (simp add: fresh_world_def range)
  note inst = table_is_header_plus_record_rows
    [of sample_HexColor "[?d1, ?d2]" "''out.pdf''" fresh_world ?env]
  note main = inst [THEN conjunct2, THEN conjunct2, THEN conjunct2, THEN conjunct2,
      THEN conjunct2, THEN mp, OF conjI [OF colours_main dir]]
  note noheadshot = inst [THEN conjunct2, THEN conjunct2, THEN conjunct2, THEN conjunct2,
      THEN conjunct1, THEN mp, OF colours_noheadshot]
  show ?thesis
    by (rule conjI [OF run conjI [OF main noheadshot]])
qed

section \<open>Malformed colours\<close>

text \<open>
  Claim C8. A team colour that is a string, not empty and not \<^verbatim>\<open>none\<close> in any case, goes
  to the colour constructor as it is, behind \<^verbatim>\<open>#\<close>, whatever its length and characters:
  nothing checks it. When the constructor raises for it, the colour block of that record
  raises the same exception, and \<open>create_pdf\<close> of either variant ends with an exception for
  every record list that holds the record: no table is built and no default colour is
  used.
\<close>

theorem malformed_colour_is_not_guarded:
  "(driver ''team_colour'' = Some (PyStr s) \<and> s \<noteq> '''' \<and> str_lower s \<noteq> ''none'' \<longrightarrow>
      main_team_color HexColor driver = HexColor (''#'' @ s) \<and>
      noheadshot_team_color HexColor driver = HexColor (''#'' @ s)) \<and>
   (driver ''team_colour'' = Some (PyStr s) \<and> s \<noteq> '''' \<and> str_lower s \<noteq> ''none'' \<and>
    HexColor (''#'' @ s) = Inl e \<and> driver \<in> set ds \<longrightarrow>
      main_team_color HexColor driver = Inl e \<and>
      noheadshot_team_color HexColor driver = Inl e \<and>
      (\<exists>e' w'. main_create_pdf env HexColor ds fname w = (Inl e', w')) \<and>
      (\<exists>e' w'. noheadshot_create_pdf HexColor ds fname w = (Inl e', w')))"
proof -
  have given: "main_team_color HexColor driver = HexColor (''#'' @ s) \<and>
      noheadshot_team_color HexColor driver = HexColor (''#'' @ s)"
    if "driver ''team_colour'' = Some (PyStr s) \<and> s \<noteq> '''' \<and> str_lower s \<noteq> ''none''"
    using that by (simp add: main_team_color_eq_noheadshot team_color_given)
  have aborts: "main_team_color HexColor driver = Inl e \<and>
      noheadshot_team_color HexColor driver = Inl e \<and>
      (\<exists>e' w'. main_create_pdf env HexColor ds fname w = (Inl e', w')) \<and>
      (\<exists>e' w'. noheadshot_create_pdf HexColor ds fname w = (Inl e', w'))"
    if a: "driver ''team_colour'' = Some (PyStr s) \<and> s \<noteq> '''' \<and> str_lower s \<noteq> ''none'' \<and>
      HexColor (''#'' @ s) = Inl e \<and> driver \<in> set ds"
  proof -
    from a have n: "noheadshot_team_color HexColor driver = Inl e"
      by (simp add: team_color_given)
    then have m: "main_team_color HexColor driver = Inl e"
      by (simp add: main_team_color_eq_noheadshot)
    from a have mem: "driver \<in> set ds" by simp
    let ?w1 = "w\<lparr>fs_calls := fs_calls w @ [PathExists ''f1_logo.png'']\<rparr>"
    from main_populate_raises [OF mem m, of env "[main_header]" "[]" ?w1]
    have "\<exists>e' w'. main_create_pdf env HexColor ds fname w = (Inl e', w')"
      by (auto simp: main_create_pdf_def os_path_exists_logo)
    moreover
    from noheadshot_populate_raises [OF mem n, of "[noheadshot_header]" "[]"]
    have "\<exists>e' w'. noheadshot_create_pdf HexColor ds fname w = (Inl e', w')"
      by (auto simp: noheadshot_create_pdf_def os_path_exists_logo)
    ultimately show ?thesis
      using m n by blast
  qed
  from given aborts show ?thesis
    by blast
qed

theorem malformed_colour_is_not_guarded_witness:
  "main_team_color sample_HexColor [''team_colour'' \<mapsto> PyStr ''ZZZZZZ''] =
     Inl (ValueError ''invalid literal for int() with base 16'') \<and>
   noheadshot_team_color sample_HexColor [''team_colour'' \<mapsto> PyStr ''ZZZZZZ''] =
     Inl (ValueError ''invalid literal for int() with base 16'') \<and>
   (\<exists>e' w'. main_create_pdf (sample_env (Inl ''connection refused'') (Inr ())) sample_HexColor
      [Map.empty, [''team_colour'' \<mapsto> PyStr ''ZZZZZZ'']] ''out.pdf'' fresh_world = (Inl e', w')) \<and>
   (\<exists>e' w'. noheadshot_create_pdf sample_HexColor
      [Map.empty, [''team_colour'' \<mapsto> PyStr ''ZZZZZZ'']] ''out.pdf'' fresh_world = (Inl e', w'))"
proof -
  have lower: "str_lower ''ZZZZZZ'' \<noteq> ''none''"
    by (simp add: str_lower_def lower_char_def)
  have raises: "sample_HexColor (''#'' @ ''ZZZZZZ'') =
      Inl (ValueError ''invalid literal for int() with base 16'')"
    by (simp add: sample_HexColor_def)
  have hyp: "[''team_colour'' \<mapsto> PyStr ''ZZZZZZ''] ''team_colour'' = Some (PyStr ''ZZZZZZ'') \<and>
      ''ZZZZZZ'' \<noteq> '''' \<and> str_lower ''ZZZZZZ'' \<noteq> ''none'' \<and>
      sample_HexColor (''#'' @ ''ZZZZZZ'') =
        Inl (ValueError ''invalid literal for int() with base 16'') \<and>
      [''team_colour'' \<mapsto> PyStr ''ZZZZZZ''] \<in>
        set [Map.empty, [''team_colour'' \<mapsto> PyStr ''ZZZZZZ'']]"
    using lower raises by simp
  from malformed_colour_is_not_guarded
    [of "[''team_colour'' \<mapsto> PyStr ''ZZZZZZ'']" "''ZZZZZZ''" sample_HexColor
      "ValueError ''invalid literal for int() with base 16''"
      "[Map.empty, [''team_colour'' \<mapsto> PyStr ''ZZZZZZ'']]"
      "sample_env (Inl ''connection refused'') (Inr ())" "''out.pdf''" fresh_world,
      THEN conjunct2, rule_format, OF hyp]
  show ?thesis .
qed

section \<open>The two variants\<close>







section \<open>Fields that are present with a null value\<close>

text \<open>
  Claim C10. The default \<^verbatim>\<open>"N/A"\<close> of \<^verbatim>\<open>driver.get(key, "N/A")\<close> stands in only for a key
  that is not in the record: a display field that is present has its own value in the
  cell, so a field bound to \<^verbatim>\<open>None\<close> puts \<^verbatim>\<open>None\<close> into the row, and a first or last name
  bound to \<^verbatim>\<open>None\<close> puts the text \<^verbatim>\<open>None\<close> into the full name. For the team colour the
  lookup \<^verbatim>\<open>driver.get("team_colour")\<close> gives \<^verbatim>\<open>None\<close> for a key that is absent and for a key
  bound to \<^verbatim>\<open>None\<close> alike; the value is falsy, and that test gives both the default colour.
\<close>

theorem present_null_is_not_replaced:
  "(\<forall>(key, col) \<in> set [(''driver_number'', 0), (''name_acronym'', 2), (''team_name'', 3),
                          (''dob'', 4), (''country_code'', 5)].
      \<forall>v. driver key = Some v \<longrightarrow>
        noheadshot_row driver ! col = Val v \<and> main_row image_cell driver ! Suc col = Val v) \<and>
   (driver ''first_name'' = Some PyNone \<longrightarrow>
      (\<exists>rest. noheadshot_row driver ! 1 = Val (PyStr (''None '' @ rest)) \<and>
              main_row image_cell driver ! 2 = Val (PyStr (''None '' @ rest)))) \<and>
   (driver ''last_name'' = Some PyNone \<longrightarrow>
      (\<exists>start. noheadshot_row driver ! 1 = Val (PyStr (start @ '' None'')) \<and>
               main_row image_cell driver ! 2 = Val (PyStr (start @ '' None'')))) \<and>
   dict_get (driver(''team_colour'' \<mapsto> PyNone)) ''team_colour'' PyNone = PyNone \<and>
   dict_get (driver(''team_colour'' := None)) ''team_colour'' PyNone = PyNone \<and>
   \<not> truthy PyNone \<and>
   main_team_color HexColor (driver(''team_colour'' \<mapsto> PyNone)) = HexColor ''#CCCCCC'' \<and>
   main_team_color HexColor (driver(''team_colour'' := None)) = HexColor ''#CCCCCC'' \<and>
   noheadshot_team_color HexColor (driver(''team_colour'' \<mapsto> PyNone)) = HexColor ''#CCCCCC'' \<and>
   noheadshot_team_color HexColor (driver(''team_colour'' := None)) = HexColor ''#CCCCCC''"
  by (auto simp: noheadshot_row_def main_row_def dict_get_def main_team_color_def
      noheadshot_team_color_def split: option.splits)

theorem present_null_is_not_replaced_witness:
  "noheadshot_row [''driver_number'' \<mapsto> PyNone, ''first_name'' \<mapsto> PyNone,
                   ''last_name'' \<mapsto> PyStr ''Verstappen''] =
     [Val PyNone, Val (PyStr ''None Verstappen''), Val (PyStr ''N/A''), Val (PyStr ''N/A''),
      Val (PyStr ''N/A''), Val (PyStr ''N/A'')] \<and>
   main_row (Val (PyStr ''N/A''))
     [''driver_number'' \<mapsto> PyNone, ''first_name'' \<mapsto> PyNone,
      ''last_name'' \<mapsto> PyStr ''Verstappen''] ! 1 = Val PyNone \<and>
   main_team_color Inr [''team_colour'' \<mapsto> PyNone] = Inr ''#CCCCCC''"
  using present_null_is_not_replaced
    [of "[''driver_number'' \<mapsto> PyNone, ''first_name'' \<mapsto> PyNone,
          ''last_name'' \<mapsto> PyStr ''Verstappen'']" "Val (PyStr ''N/A'')" Inr]
    present_null_is_not_replaced [of Map.empty "Val (PyStr ''N/A'')" Inr]
  by (simp add: noheadshot_row_def dict_get_def)

end
